theory Spec2Isabelle
  imports Complex_Main
begin

section \<open>Product store service: the request handlers of service/routes.py\<close>

text \<open>
  The handlers of \<^verbatim>\<open>service/routes.py\<close> are embedded as functions from a request and the
  stored table to an outcome (and, for the handlers that write, the new table).
  The model class \<^verbatim>\<open>Product\<close>, the enumeration \<^verbatim>\<open>Category\<close>, the status constants
  and the application's error handlers live in modules that are not part of the sources
  (\<^verbatim>\<open>service/models.py\<close>, \<^verbatim>\<open>service/common\<close>); they are modelled from the
  specification, and every such definition says so.
\<close>

subsection \<open>Python values\<close>

text \<open>
  The values that occur in a parsed JSON body, in a serialized product and as the argument
  of the availability finder. Floats are left out.
\<close>

datatype pyval = PyNone | PyBool bool | PyInt int | PyStr string

text \<open>The exceptions that can leave a handler.\<close>

datatype exn = DataValidationError | AttributeError

subsection \<open>Decimal prices\<close>

text \<open>
  Modelled from the spec: the price is a decimal value, serialized as a string that
  preserves the decimal, and a malformed price fails deserialization. A decimal is a sign,
  a coefficient and a number of fractional digits, as Python's \<^verbatim>\<open>Decimal\<close> keeps it:
  \<^verbatim>\<open>Decimal('12.50')\<close> is coefficient 1250 with two fractional digits.
\<close>

record decimal =
  negative :: bool
  coefficient :: nat
  scale :: nat

definition dec_value :: "decimal \<Rightarrow> real" where
  "dec_value x = (if negative x then - 1 else 1) * real (coefficient x) / 10 ^ scale x"

definition digit_char :: "nat \<Rightarrow> char" where
  "digit_char k = ''0123456789'' ! k"

definition digit_val :: "char \<Rightarrow> nat option" where
  "digit_val c = map_of (zip ''0123456789'' [0, 1, 2, 3, 4, 5, 6, 7, 8, 9]) c"

function digits_of :: "nat \<Rightarrow> string" where
  "digits_of n =
     (if n < 10 then [digit_char n] else digits_of (n div 10) @ [digit_char (n mod 10)])"
  by pat_completeness auto
termination
  by (relation "measure (\<lambda>n. n)") auto

declare digits_of.simps [simp del]

fun digits_val :: "nat \<Rightarrow> string \<Rightarrow> nat option" where
  "digits_val acc [] = Some acc"
| "digits_val acc (c # cs) =
     (case digit_val c of None \<Rightarrow> None | Some k \<Rightarrow> digits_val (acc * 10 + k) cs)"

text \<open>The string of a decimal: the digits of the coefficient, padded with zeros on the left
  so that at least one digit stands before the point, and the point before the last
  \<open>scale\<close> digits.\<close>

definition str_of_decimal :: "decimal \<Rightarrow> string" where
  "str_of_decimal x =
     (let ds = digits_of (coefficient x);
          padded = replicate (Suc (scale x) - length ds) (CHR ''0'') @ ds;
          ip = take (length padded - scale x) padded;
          fp = drop (length padded - scale x) padded
      in (if negative x then ''-'' else '''') @ ip @ (if scale x = 0 then '''' else ''.'' @ fp))"

text \<open>Reading a decimal: an optional minus sign, digits, and optionally a point followed by
  digits. Anything else is malformed.\<close>

definition decimal_of_str :: "string \<Rightarrow> decimal option" where
  "decimal_of_str s =
     (let neg = (s \<noteq> [] \<and> hd s = CHR ''-'');
          body = (if neg then tl s else s);
          ip = takeWhile (\<lambda>c. c \<noteq> CHR ''.'') body;
          rest = dropWhile (\<lambda>c. c \<noteq> CHR ''.'') body;
          fp = (case rest of [] \<Rightarrow> [] | _ # f \<Rightarrow> f)
      in if ip = [] \<or> (rest \<noteq> [] \<and> fp = []) then None
         else (case digits_val 0 (ip @ fp) of
                 None \<Rightarrow> None
               | Some k \<Rightarrow> Some \<lparr>negative = neg, coefficient = k, scale = length fp\<rparr>))"

subsection \<open>The Product model\<close>

text \<open>
  Modelled from the spec: the enumeration \<^verbatim>\<open>Category\<close> is declared in the absent
  \<^verbatim>\<open>service/models.py\<close>. It is a parameter of the model: the list of its member
  names. A member is identified by its name, and \<^verbatim>\<open>getattr(Category, s)\<close> raises
  \<^verbatim>\<open>AttributeError\<close> when \<open>s\<close> names no member.
\<close>

datatype category = Member string

fun category_name :: "category \<Rightarrow> string" where
  "category_name (Member n) = n"

definition getattr_Category :: "string list \<Rightarrow> string \<Rightarrow> exn + category" where
  "getattr_Category members s = (if s \<in> set members then Inr (Member s) else Inl AttributeError)"

text \<open>A Product instance. Every attribute of the Python object can be unset (\<^verbatim>\<open>None\<close>);
  \<open>product_id\<close> is the attribute \<^verbatim>\<open>id\<close>.\<close>

record product =
  product_id :: "int option"
  name :: "string option"
  description :: "string option"
  price :: "decimal option"
  available :: "bool option"
  category :: "category option"

text \<open>\<^verbatim>\<open>Product()\<close>: a fresh instance, nothing set.\<close>

definition Product :: product where
  "Product = \<lparr>product_id = None, name = None, description = None, price = None,
              available = None, category = None\<rparr>"

text \<open>
  Modelled from the spec: \<^verbatim>\<open>Product.serialize\<close> is absent from the sources. It produces
  a mapping with the keys id, name, description, price, available and category; the category
  is rendered as its member name, the price as the string of the decimal, available as a
  boolean. An unset attribute is rendered as \<^verbatim>\<open>None\<close>.
\<close>

definition serialize :: "product \<Rightarrow> (string \<rightharpoonup> pyval)" where
  "serialize p =
     [''id'' \<mapsto> (case product_id p of None \<Rightarrow> PyNone | Some i \<Rightarrow> PyInt i),
      ''name'' \<mapsto> (case name p of None \<Rightarrow> PyNone | Some n \<Rightarrow> PyStr n),
      ''description'' \<mapsto> (case description p of None \<Rightarrow> PyNone | Some t \<Rightarrow> PyStr t),
      ''price'' \<mapsto> (case price p of None \<Rightarrow> PyNone | Some x \<Rightarrow> PyStr (str_of_decimal x)),
      ''available'' \<mapsto> (case available p of None \<Rightarrow> PyNone | Some b \<Rightarrow> PyBool b),
      ''category'' \<mapsto> (case category p of None \<Rightarrow> PyNone | Some c \<Rightarrow> PyStr (category_name c))]"

text \<open>
  Modelled from the spec: \<^verbatim>\<open>Product.deserialize\<close> is absent from the sources. It
  populates the attributes from a mapping and fails with a validation error when the name is
  missing, empty or not a string; when the price is missing or malformed; when available is
  missing or not a boolean; when a category is given that names no member; when a
  description is given that is neither a string nor null. The id is never read from the
  mapping. Each field is read by a function of its own; nothing is written on failure.
\<close>

definition name_field :: "(string \<rightharpoonup> pyval) \<Rightarrow> exn + string" where
  "name_field data =
     (case data ''name'' of
        Some (PyStr n) \<Rightarrow> if n = [] then Inl DataValidationError else Inr n
      | _ \<Rightarrow> Inl DataValidationError)"

definition description_field :: "(string \<rightharpoonup> pyval) \<Rightarrow> string option \<Rightarrow> exn + string option" where
  "description_field data old =
     (case data ''description'' of
        None \<Rightarrow> Inr old
      | Some PyNone \<Rightarrow> Inr None
      | Some (PyStr t) \<Rightarrow> Inr (Some t)
      | Some _ \<Rightarrow> Inl DataValidationError)"

definition price_field :: "(string \<rightharpoonup> pyval) \<Rightarrow> exn + decimal" where
  "price_field data =
     (case data ''price'' of
        Some (PyStr s) \<Rightarrow>
          (case decimal_of_str s of None \<Rightarrow> Inl DataValidationError | Some x \<Rightarrow> Inr x)
      | Some (PyInt i) \<Rightarrow> Inr \<lparr>negative = (i < 0), coefficient = nat \<bar>i\<bar>, scale = 0\<rparr>
      | _ \<Rightarrow> Inl DataValidationError)"

definition available_field :: "(string \<rightharpoonup> pyval) \<Rightarrow> exn + bool" where
  "available_field data =
     (case data ''available'' of
        Some (PyBool b) \<Rightarrow> Inr b
      | _ \<Rightarrow> Inl DataValidationError)"

definition category_field ::
  "string list \<Rightarrow> (string \<rightharpoonup> pyval) \<Rightarrow> category option \<Rightarrow> exn + category option" where
  "category_field members data old =
     (case data ''category'' of
        None \<Rightarrow> Inr old
      | Some (PyStr s) \<Rightarrow>
          (case getattr_Category members s of
             Inl e \<Rightarrow> Inl DataValidationError
           | Inr c \<Rightarrow> Inr (Some c))
      | Some _ \<Rightarrow> Inl DataValidationError)"

definition deserialize :: "string list \<Rightarrow> (string \<rightharpoonup> pyval) \<Rightarrow> product \<Rightarrow> exn + product" where
  "deserialize members data p =
     (case name_field data of Inl e \<Rightarrow> Inl e | Inr n \<Rightarrow>
      case description_field data (description p) of Inl e \<Rightarrow> Inl e | Inr t \<Rightarrow>
      case price_field data of Inl e \<Rightarrow> Inl e | Inr x \<Rightarrow>
      case available_field data of Inl e \<Rightarrow> Inl e | Inr b \<Rightarrow>
      case category_field members data (category p) of Inl e \<Rightarrow> Inl e | Inr c \<Rightarrow>
        Inr (p\<lparr>name := Some n, description := t, price := Some x, available := Some b,
               category := c\<rparr>))"

text \<open>A valid product, as the data model requires it: a non-empty name, a price, an
  availability, and a category that is a member of the enumeration. The description is
  optional.\<close>

definition valid_product :: "string list \<Rightarrow> product \<Rightarrow> bool" where
  "valid_product members p =
     ((case name p of None \<Rightarrow> False | Some n \<Rightarrow> n \<noteq> []) \<and>
      price p \<noteq> None \<and>
      available p \<noteq> None \<and>
      (case category p of None \<Rightarrow> False | Some c \<Rightarrow> category_name c \<in> set members))"

subsection \<open>Storage\<close>

text \<open>The stored table: the rows in insertion order, and the id the storage assigns next.\<close>

record db =
  rows :: "product list"
  next_id :: int

text \<open>
  Modelled from the spec: the repository operations of \<^verbatim>\<open>Product\<close> are absent from the
  sources. \<^verbatim>\<open>find\<close> returns the persisted instance with the id, or \<^verbatim>\<open>None\<close>;
  \<^verbatim>\<open>all\<close> returns every row; each \<^verbatim>\<open>find_by\<close> operation is an equality filter over
  the table and produces a sequence, possibly empty.
\<close>

definition product_find :: "int \<Rightarrow> db \<Rightarrow> product option" where
  "product_find pid d = List.find (\<lambda>r. product_id r = Some pid) (rows d)"

definition product_all :: "db \<Rightarrow> product list" where
  "product_all d = rows d"

definition find_by_name :: "string \<Rightarrow> db \<Rightarrow> product list" where
  "find_by_name n d = filter (\<lambda>r. name r = Some n) (rows d)"

definition find_by_category :: "category \<Rightarrow> db \<Rightarrow> product list" where
  "find_by_category c d = filter (\<lambda>r. category r = Some c) (rows d)"

text \<open>
  Modelled from the spec: \<^verbatim>\<open>find_by_availability\<close> returns all instances whose
  available field equals the given boolean. The spec defines it for a boolean only and
  leaves open what it does with any other argument, a string in particular; that behaviour
  is a parameter of the model, \<open>non_boolean\<close>, of which nothing is assumed.
\<close>

definition find_by_availability ::
  "(pyval \<Rightarrow> db \<Rightarrow> product list) \<Rightarrow> pyval \<Rightarrow> db \<Rightarrow> product list" where
  "find_by_availability non_boolean v d =
     (case v of
        PyBool b \<Rightarrow> filter (\<lambda>r. available r = Some b) (rows d)
      | _ \<Rightarrow> non_boolean v d)"

text \<open>
  Modelled from the spec: \<^verbatim>\<open>create\<close> inserts the instance and assigns the generated id
  back onto it; \<^verbatim>\<open>update\<close> requires the id and fails with a validation error, before any
  write, when it is \<^verbatim>\<open>None\<close>, and otherwise persists the attributes to the matching row;
  \<^verbatim>\<open>delete\<close> removes the row matching the instance's id. The storage engine itself never
  fails in this model.
\<close>

definition product_create :: "product \<Rightarrow> db \<Rightarrow> product \<times> db" where
  "product_create p d =
     (let p' = p\<lparr>product_id := Some (next_id d)\<rparr>
      in (p', d\<lparr>rows := rows d @ [p'], next_id := next_id d + 1\<rparr>))"

definition product_update :: "product \<Rightarrow> db \<Rightarrow> (exn + unit) \<times> db" where
  "product_update p d =
     (if product_id p = None then (Inl DataValidationError, d)
      else (Inr (), d\<lparr>rows := map (\<lambda>r. if product_id r = product_id p then p else r) (rows d)\<rparr>))"

definition product_delete :: "product \<Rightarrow> db \<Rightarrow> db" where
  "product_delete p d = d\<lparr>rows := filter (\<lambda>r. product_id r \<noteq> product_id p) (rows d)\<rparr>"

subsection \<open>Requests and outcomes\<close>

text \<open>A request: its headers, its query arguments (\<^verbatim>\<open>request.args\<close>) and its parsed JSON
  body (\<^verbatim>\<open>request.get_json()\<close>, a mapping).\<close>

record request =
  headers :: "string \<rightharpoonup> string"
  args :: "string \<rightharpoonup> string"
  json_body :: "string \<rightharpoonup> pyval"

text \<open>What \<^verbatim>\<open>jsonify\<close> is given: one mapping, or a list of mappings.\<close>

datatype body = JObject "string \<rightharpoonup> pyval" | JArray "(string \<rightharpoonup> pyval) list"

text \<open>A handler returns a response (status, body, headers), leaves through \<^verbatim>\<open>abort\<close> with
  a status, or lets an exception escape.\<close>

datatype result =
    Response nat body "(string \<times> string) list"
  | Abort nat
  | Raise exn

text \<open>Modelled from the spec: the constants of \<^verbatim>\<open>service.common.status\<close>.\<close>

definition HTTP_200_OK :: nat where "HTTP_200_OK = 200"
definition HTTP_201_CREATED :: nat where "HTTP_201_CREATED = 201"
definition HTTP_400_BAD_REQUEST :: nat where "HTTP_400_BAD_REQUEST = 400"
definition HTTP_404_NOT_FOUND :: nat where "HTTP_404_NOT_FOUND = 404"
definition HTTP_415_UNSUPPORTED_MEDIA_TYPE :: nat where "HTTP_415_UNSUPPORTED_MEDIA_TYPE = 415"
definition HTTP_500_INTERNAL_SERVER_ERROR :: nat where "HTTP_500_INTERNAL_SERVER_ERROR = 500"

text \<open>
  Modelled from the spec: the application's error handlers are absent from the sources. A
  validation error is surfaced to the client as 400; any other exception that escapes a
  handler is a server error, 500. \<^verbatim>\<open>abort(n)\<close> answers with status \<open>n\<close>.
\<close>

fun status_code :: "result \<Rightarrow> nat" where
  "status_code (Response st b hs) = st"
| "status_code (Abort st) = st"
| "status_code (Raise DataValidationError) = HTTP_400_BAD_REQUEST"
| "status_code (Raise AttributeError) = HTTP_500_INTERNAL_SERVER_ERROR"

subsection \<open>The handlers\<close>

text \<open>\<^verbatim>\<open>check_content_type\<close>: \<open>None\<close> when the media type is right, the status of the
  abort otherwise.\<close>

definition check_content_type :: "request \<Rightarrow> string \<Rightarrow> nat option" where
  "check_content_type req content_type =
     (case headers req ''Content-Type'' of
        None \<Rightarrow> Some HTTP_415_UNSUPPORTED_MEDIA_TYPE
      | Some ct \<Rightarrow> if ct = content_type then None else Some HTTP_415_UNSUPPORTED_MEDIA_TYPE)"

text \<open>\<^verbatim>\<open>POST /products\<close>.\<close>

definition create_products :: "string list \<Rightarrow> request \<Rightarrow> db \<Rightarrow> result \<times> db" where
  "create_products members req d =
     (case check_content_type req ''application/json'' of
        Some st \<Rightarrow> (Abort st, d)
      | None \<Rightarrow>
          (case deserialize members (json_body req) Product of
             Inl e \<Rightarrow> (Raise e, d)
           | Inr product \<Rightarrow>
               (case product_create product d of
                  (product', d') \<Rightarrow>
                    (let message = serialize product';
                         location_url = ''/''
                     in (Response HTTP_201_CREATED (JObject message) [(''Location'', location_url)],
                         d')))))"

text \<open>The truth value Python gives a query argument in \<^verbatim>\<open>if name:\<close>: an argument that is
  absent (\<^verbatim>\<open>None\<close>) or the empty string does not count.\<close>

fun truthy :: "string option \<Rightarrow> string option" where
  "truthy None = None"
| "truthy (Some s) = (if s = [] then None else Some s)"

text \<open>\<^verbatim>\<open>GET /products\<close>, first part: the value of \<^verbatim>\<open>prods\<close> after the chain of
  \<^verbatim>\<open>if\<close>/\<^verbatim>\<open>elif\<close>, or the exception that \<^verbatim>\<open>getattr\<close> raised. Python's
  \<^verbatim>\<open>str.upper\<close> is a parameter, \<open>upper\<close>: it maps the whole of Unicode and can change
  the length of a string, and nothing is assumed of it. The availability string goes to the
  finder as it is.\<close>

definition selected_products ::
  "string list \<Rightarrow> (string \<Rightarrow> string) \<Rightarrow> (pyval \<Rightarrow> db \<Rightarrow> product list) \<Rightarrow> request \<Rightarrow> db
     \<Rightarrow> exn + product list" where
  "selected_products members upper non_boolean req d =
     (case truthy (args req ''name'') of
        Some name_arg \<Rightarrow> Inr (find_by_name name_arg d)
      | None \<Rightarrow>
          (case truthy (args req ''category'') of
             Some category_arg \<Rightarrow>
               (case getattr_Category members (upper category_arg) of
                  Inl e \<Rightarrow> Inl e
                | Inr category_value \<Rightarrow> Inr (find_by_category category_value d))
           | None \<Rightarrow>
               (case truthy (args req ''availability'') of
                  Some availability \<Rightarrow>
                    Inr (find_by_availability non_boolean (PyStr availability) d)
                | None \<Rightarrow> Inr (product_all d))))"

text \<open>\<^verbatim>\<open>GET /products\<close>: an empty \<^verbatim>\<open>prods\<close> aborts with 404.\<close>

definition list_all_product ::
  "string list \<Rightarrow> (string \<Rightarrow> string) \<Rightarrow> (pyval \<Rightarrow> db \<Rightarrow> product list) \<Rightarrow> request \<Rightarrow> db
     \<Rightarrow> result" where
  "list_all_product members upper non_boolean req d =
     (case selected_products members upper non_boolean req d of
        Inl e \<Rightarrow> Raise e
      | Inr prods \<Rightarrow>
          if prods = [] then Abort 404
          else (let the_products = map serialize prods
                in Response HTTP_200_OK (JArray the_products) []))"

text \<open>\<^verbatim>\<open>PUT /products/<id>\<close>.\<close>

definition update_product :: "string list \<Rightarrow> request \<Rightarrow> int \<Rightarrow> db \<Rightarrow> result \<times> db" where
  "update_product members req pid d =
     (case check_content_type req ''application/json'' of
        Some st \<Rightarrow> (Abort st, d)
      | None \<Rightarrow>
          (case product_find pid d of
             None \<Rightarrow> (Abort 404, d)
           | Some prod0 \<Rightarrow>
               (case deserialize members (json_body req) prod0 of
                  Inl e \<Rightarrow> (Raise e, d)
                | Inr prod1 \<Rightarrow>
                    (let prod2 = prod1\<lparr>product_id := Some pid\<rparr>
                     in (case product_update prod2 d of
                           (Inl e, d') \<Rightarrow> (Raise e, d')
                         | (Inr u, d') \<Rightarrow>
                             (Response HTTP_200_OK (JObject (serialize prod2)) [], d'))))))"

text \<open>\<^verbatim>\<open>GET /products/<id>\<close>.\<close>

definition get_product :: "int \<Rightarrow> db \<Rightarrow> result" where
  "get_product pid d =
     (case product_find pid d of
        None \<Rightarrow> Abort 404
      | Some prod0 \<Rightarrow> Response HTTP_200_OK (JObject (serialize prod0)) [])"

text \<open>\<^verbatim>\<open>DELETE /products/<id>\<close>. The message is the string as the source writes it: it is not
  an f-string, so the braces stay.\<close>

definition delete_product :: "int \<Rightarrow> db \<Rightarrow> result \<times> db" where
  "delete_product pid d =
     (case product_find pid d of
        None \<Rightarrow> (Abort 404, d)
      | Some prod0 \<Rightarrow>
          (Response HTTP_200_OK
             (JObject [''message'' \<mapsto> PyStr ''The product with name {prod.name} successfully deleted''])
             [],
           product_delete prod0 d))"

subsection \<open>Sample data\<close>

text \<open>The product of the specification's end-to-end example, a category enumeration with the
  member the tests use, and small tables and requests built from them.\<close>

definition sample_members :: "string list" where
  "sample_members = [''CLOTHS'']"

definition fedora_price :: decimal where
  "fedora_price = \<lparr>negative = False, coefficient = 1250, scale = 2\<rparr>"

definition fedora :: product where
  "fedora = \<lparr>product_id = Some 1, name = Some ''Fedora'', description = Some ''A red hat'',
              price = Some fedora_price, available = Some True,
              category = Some (Member ''CLOTHS'')\<rparr>"

definition fedora_json :: "string \<rightharpoonup> pyval" where
  "fedora_json =
     [''name'' \<mapsto> PyStr ''Fedora'', ''description'' \<mapsto> PyStr ''A red hat'',
      ''price'' \<mapsto> PyStr ''12.50'', ''available'' \<mapsto> PyBool True,
      ''category'' \<mapsto> PyStr ''CLOTHS'']"

text \<open>Instances of the two parameters for the examples. \<open>ascii_upper\<close> maps the letters a
  to z to A to Z and keeps every other character: on ASCII text it is what
  \<^verbatim>\<open>str.upper\<close> does, and the examples apply it to ASCII text only. \<open>column_coercion\<close>
  is one behaviour the availability finder can have on a string: the strings true and false
  are read as the booleans, as a comparison with a boolean column can do.\<close>

definition ascii_upper_char :: "char \<Rightarrow> char" where
  "ascii_upper_char c =
     (case map_of (zip ''abcdefghijklmnopqrstuvwxyz'' ''ABCDEFGHIJKLMNOPQRSTUVWXYZ'') c of
        None \<Rightarrow> c
      | Some u \<Rightarrow> u)"

definition ascii_upper :: "string \<Rightarrow> string" where
  "ascii_upper s = map ascii_upper_char s"

definition column_coercion :: "pyval \<Rightarrow> db \<Rightarrow> product list" where
  "column_coercion v d =
     (if v = PyStr ''true'' then filter (\<lambda>r. available r = Some True) (rows d)
      else if v = PyStr ''false'' then filter (\<lambda>r. available r = Some False) (rows d)
      else [])"

definition empty_db :: db where
  "empty_db = \<lparr>rows = [], next_id = 1\<rparr>"

definition fedora_db :: db where
  "fedora_db = \<lparr>rows = [fedora], next_id = 2\<rparr>"

definition json_request :: "(string \<rightharpoonup> string) \<Rightarrow> (string \<rightharpoonup> pyval) \<Rightarrow> request" where
  "json_request a b =
     \<lparr>headers = [''Content-Type'' \<mapsto> ''application/json''], args = a, json_body = b\<rparr>"

section \<open>Properties\<close>

subsection \<open>Decimal strings\<close>

text \<open>Reading the string of a decimal gives the decimal back: the digits of a number read
  as that number, leading zeros do not count, and no digit is a point or a minus sign.\<close>

lemma below_10: "[0..<10] = [0, 1, 2, 3, 4, 5, 6, 7, 8, 9 :: nat]"
  by code_simp

lemma digit_cases:
  fixes k :: nat
  assumes "k < 10"
  obtains "k = 0" | "k = 1" | "k = 2" | "k = 3" | "k = 4"
        | "k = 5" | "k = 6" | "k = 7" | "k = 8" | "k = 9"
proof -
  from assms have "k \<in> set [0..<10]" by simp
  then have "k \<in> {0, 1, 2, 3, 4, 5, 6, 7, 8, 9}" unfolding below_10 by simp
  then show thesis using that by blast
qed

lemma digit_val_digit_char: "k < 10 \<Longrightarrow> digit_val (digit_char k) = Some k"
  by (erule digit_cases) (simp_all add: digit_val_def digit_char_def)

lemma digit_char_not_point: "k < 10 \<Longrightarrow> digit_char k \<noteq> CHR ''.''"
  by (erule digit_cases) (simp_all add: digit_char_def)

lemma digit_char_not_minus: "k < 10 \<Longrightarrow> digit_char k \<noteq> CHR ''-''"
  by (erule digit_cases) (simp_all add: digit_char_def)

lemma digits_val_append:
  "digits_val acc (xs @ ys) =
     (case digits_val acc xs of None \<Rightarrow> None | Some a \<Rightarrow> digits_val a ys)"
  by (induction xs arbitrary: acc) (auto split: option.splits)

lemma digits_val_digits_of: "digits_val 0 (digits_of n) = Some n"
proof (induction n rule: digits_of.induct)
  case (1 n)
  show ?case
  proof (cases "n < 10")
    case True
    then show ?thesis
      by (subst digits_of.simps) (simp add: digit_val_digit_char)
  next
    case False
    with 1 have ih: "digits_val 0 (digits_of (n div 10)) = Some (n div 10)" by simp
    show ?thesis
      using False
      by (subst digits_of.simps) (simp add: digits_val_append ih digit_val_digit_char)
  qed
qed

lemma digits_of_chars: "c \<in> set (digits_of n) \<Longrightarrow> c \<noteq> CHR ''.'' \<and> c \<noteq> CHR ''-''"
proof (induction n rule: digits_of.induct)
  case (1 n)
  show ?case
  proof (cases "n < 10")
    case True
    with "1.prems" show ?thesis
      by (subst (asm) digits_of.simps) (simp add: digit_char_not_point digit_char_not_minus)
  next
    case False
    with "1.prems" have "c \<in> set (digits_of (n div 10)) \<or> c = digit_char (n mod 10)"
      by (subst (asm) digits_of.simps) auto
    with 1 False show ?thesis
      by (auto simp: digit_char_not_point digit_char_not_minus)
  qed
qed

lemma digits_of_nonempty: "digits_of n \<noteq> []"
  by (subst digits_of.simps) simp

lemma digits_val_zeros: "digits_val 0 (replicate k (CHR ''0'')) = Some 0"
  by (induction k) (simp_all add: digit_val_def)


lemma takeWhile_point:
  assumes "\<forall>c \<in> set ip. c \<noteq> CHR ''.''"
  shows "takeWhile (\<lambda>c. c \<noteq> CHR ''.'') (ip @ CHR ''.'' # fp) = ip"
    and "dropWhile (\<lambda>c. c \<noteq> CHR ''.'') (ip @ CHR ''.'' # fp) = CHR ''.'' # fp"
    and "takeWhile (\<lambda>c. c \<noteq> CHR ''.'') ip = ip"
    and "dropWhile (\<lambda>c. c \<noteq> CHR ''.'') ip = []"
  using assms by simp_all

lemma decimal_roundtrip: "decimal_of_str (str_of_decimal x) = Some x"
proof -
  define ds where "ds = digits_of (coefficient x)"
  define padded where "padded = replicate (Suc (scale x) - length ds) (CHR ''0'') @ ds"
  define ip where "ip = take (length padded - scale x) padded"
  define fp where "fp = drop (length padded - scale x) padded"
  define tail where "tail = (if scale x = 0 then [] else CHR ''.'' # fp)"
  have str: "str_of_decimal x = (if negative x then ''-'' else []) @ ip @ tail"
    by (simp add: str_of_decimal_def Let_def ds_def padded_def ip_def fp_def tail_def)
  have len: "scale x < length padded"
    by (simp add: padded_def)
  have ipfp: "ip @ fp = padded"
    by (simp add: ip_def fp_def)
  have lfp: "length fp = scale x"
    using len by (simp add: fp_def)
  have ip_ne: "ip \<noteq> []"
    using len by (auto simp: ip_def)
  have chars: "c \<noteq> CHR ''.'' \<and> c \<noteq> CHR ''-''" if "c \<in> set padded" for c
    using that digits_of_chars [of c "coefficient x"] by (auto simp: padded_def ds_def)
  have ip_chars: "\<forall>c \<in> set ip. c \<noteq> CHR ''.''"
    using chars ipfp by (metis Un_iff set_append)
  have no_point: "CHR ''.'' \<notin> set ip"
    using ip_chars by blast
  have hd_ip: "hd ip \<noteq> CHR ''-''"
    using chars ipfp ip_ne by (metis Un_iff hd_in_set set_append)
  have val: "digits_val 0 (ip @ fp) = Some (coefficient x)"
    by (simp add: ipfp padded_def ds_def digits_val_append digits_val_zeros digits_val_digits_of)
  have body: "decimal_of_str (ip @ tail) = Some (x\<lparr>negative := False\<rparr>)"
  proof (cases "scale x = 0")
    case True
    then have "fp = []" using lfp by simp
    with True show ?thesis
      using ip_ne hd_ip val no_point
      by (simp add: decimal_of_str_def Let_def tail_def takeWhile_point(3,4) [OF ip_chars])
  next
    case False
    then have "fp \<noteq> []" using lfp by auto
    with False show ?thesis
      using ip_ne hd_ip val lfp no_point
      by (simp add: decimal_of_str_def Let_def tail_def takeWhile_point(1,2) [OF ip_chars])
  qed
  show ?thesis
  proof (cases "negative x")
    case False
    with body show ?thesis by (simp add: str)
  next
    case True
    have "decimal_of_str (CHR ''-'' # ip @ tail) = Some (x\<lparr>negative := True\<rparr>)"
    proof (cases "scale x = 0")
      case True
      then have "fp = []" using lfp by simp
      with True show ?thesis
        using ip_ne val no_point
        by (simp add: decimal_of_str_def Let_def tail_def takeWhile_point(3,4) [OF ip_chars])
    next
      case False
      then have "fp \<noteq> []" using lfp by auto
      with False show ?thesis
        using ip_ne val lfp no_point
        by (simp add: decimal_of_str_def Let_def tail_def takeWhile_point(1,2) [OF ip_chars])
    qed
    with True show ?thesis by (simp add: str)
  qed
qed

subsection \<open>The handlers\<close>

text \<open>
  C9. Every 201 response of \<^verbatim>\<open>POST /products\<close> carries exactly one header, Location, and
  its value is the fixed string "/", whatever the request and the created product are.
\<close>

theorem create_products_location:
  assumes "create_products members req d = (Response st b hs, d')"
  shows "st = 201 \<and> hs = [(''Location'', ''/'')]"
  using assms
  by (auto simp: create_products_def HTTP_201_CREATED_def Let_def
           split: option.splits sum.splits prod.splits)

lemma deserialize_fedora:
  "deserialize sample_members fedora_json Product = Inr (fedora\<lparr>product_id := None\<rparr>)"
  by (simp add: deserialize_def name_field_def description_field_def price_field_def
      available_field_def category_field_def getattr_Category_def fedora_json_def Product_def
      fedora_def sample_members_def decimal_of_str_def digit_val_def fedora_price_def)

lemma create_fedora:
  "create_products sample_members (json_request Map.empty fedora_json) empty_db =
     (Response 201 (JObject (serialize fedora)) [(''Location'', ''/'')], fedora_db)"
  by (simp add: create_products_def check_content_type_def json_request_def deserialize_fedora
      product_create_def empty_db_def fedora_db_def fedora_def HTTP_201_CREATED_def Let_def)

theorem create_products_location_witness:
  "fst (create_products sample_members (json_request Map.empty fedora_json) empty_db) =
     Response 201 (JObject (serialize fedora)) [(''Location'', ''/'')]"
  using create_fedora create_products_location [OF create_fedora]
  by simp


subsection \<open>Listing\<close>

lemma truthy_Some_iff: "truthy a = Some s \<longleftrightarrow> a = Some s \<and> s \<noteq> []"
  by (cases a) auto

lemma truthy_None_iff: "truthy a = None \<longleftrightarrow> a = None \<or> a = Some []"
  by (cases a) auto

lemma ascii_upper_examples:
  "ascii_upper ''cloths'' = ''CLOTHS''" "ascii_upper ''Cloths'' = ''CLOTHS''"
  "ascii_upper ''food'' = ''FOOD''" "ascii_upper ''bogus'' = ''BOGUS''"
  by (simp_all add: ascii_upper_def ascii_upper_char_def)



text \<open>
  C1, as amended. For every \<^verbatim>\<open>GET /products\<close> request that is unfiltered, or filtered by
  name, by a category value whose uppercase form names a member, or by availability: when
  the products that the applied filter selects from the table are none, the answer is 404,
  never an empty list; otherwise it is 200 with the list of exactly those products,
  serialized. The products are given by the table itself: the rows with the name, the rows
  with the category, what the availability finder returns for the string, or all rows.
\<close>

theorem list_all_product_empty_is_404:
  assumes
    "(args req ''name'' = Some n \<and> n \<noteq> [] \<and>
        prods = filter (\<lambda>r. name r = Some n) (rows d)) \<or>
     ((args req ''name'' = None \<or> args req ''name'' = Some []) \<and>
      args req ''category'' = Some c \<and> c \<noteq> [] \<and> upper c \<in> set members \<and>
        prods = filter (\<lambda>r. category r = Some (Member (upper c))) (rows d)) \<or>
     ((args req ''name'' = None \<or> args req ''name'' = Some []) \<and>
      (args req ''category'' = None \<or> args req ''category'' = Some []) \<and>
      args req ''availability'' = Some a \<and> a \<noteq> [] \<and>
        prods = find_by_availability non_boolean (PyStr a) d) \<or>
     ((args req ''name'' = None \<or> args req ''name'' = Some []) \<and>
      (args req ''category'' = None \<or> args req ''category'' = Some []) \<and>
      (args req ''availability'' = None \<or> args req ''availability'' = Some []) \<and>
        prods = rows d)"
  shows "(prods = [] \<longrightarrow> list_all_product members upper non_boolean req d = Abort 404) \<and>
         (prods \<noteq> [] \<longrightarrow>
            list_all_product members upper non_boolean req d =
              Response 200 (JArray (map serialize prods)) [])"
proof -
  from assms have "selected_products members upper non_boolean req d = Inr prods"
    by (auto simp: selected_products_def find_by_name_def find_by_category_def
        getattr_Category_def product_all_def)
  then show ?thesis
    by (simp add: list_all_product_def HTTP_200_OK_def)
qed

theorem list_all_product_empty_is_404_witness:
  "list_all_product sample_members ascii_upper column_coercion
     (json_request [''name'' \<mapsto> ''Nope''] Map.empty) fedora_db = Abort 404 \<and>
   list_all_product sample_members ascii_upper column_coercion
     (json_request [''name'' \<mapsto> ''Fedora''] Map.empty) fedora_db =
       Response 200 (JArray [serialize fedora]) [] \<and>
   list_all_product sample_members ascii_upper column_coercion
     (json_request [''category'' \<mapsto> ''cloths''] Map.empty) fedora_db =
       Response 200 (JArray [serialize fedora]) [] \<and>
   list_all_product sample_members ascii_upper column_coercion
     (json_request [''availability'' \<mapsto> ''false''] Map.empty) fedora_db = Abort 404 \<and>
   list_all_product sample_members ascii_upper column_coercion
     (json_request Map.empty Map.empty) empty_db = Abort 404 \<and>
   list_all_product sample_members ascii_upper column_coercion
     (json_request Map.empty Map.empty) fedora_db = Response 200 (JArray [serialize fedora]) []"
proof -
  let ?L = "list_all_product sample_members ascii_upper column_coercion"
  let ?nope = "json_request [''name'' \<mapsto> ''Nope''] Map.empty"
  let ?fed = "json_request [''name'' \<mapsto> ''Fedora''] Map.empty"
  let ?cat = "json_request [''category'' \<mapsto> ''cloths''] Map.empty"
  let ?av = "json_request [''availability'' \<mapsto> ''false''] Map.empty"
  let ?all = "json_request Map.empty Map.empty"
  have rows: "rows fedora_db = [fedora]" "rows empty_db = []"
    by (simp_all add: fedora_db_def empty_db_def)
  have f: "name fedora = Some ''Fedora''" "category fedora = Some (Member ''CLOTHS'')"
          "available fedora = Some True"
    by (simp_all add: fedora_def)
  have 1: "?L ?nope fedora_db = Abort 404"
    using list_all_product_empty_is_404
      [of ?nope "''Nope''" "[]" fedora_db _ ascii_upper sample_members _ column_coercion]
    by (simp add: json_request_def rows f)
  have 2: "?L ?fed fedora_db = Response 200 (JArray [serialize fedora]) []"
    using list_all_product_empty_is_404
      [of ?fed "''Fedora''" "[fedora]" fedora_db _ ascii_upper sample_members _ column_coercion]
    by (simp add: json_request_def rows f)
  have 3: "?L ?cat fedora_db = Response 200 (JArray [serialize fedora]) []"
    using list_all_product_empty_is_404
      [of ?cat _ "[fedora]" fedora_db "''cloths''" ascii_upper sample_members _ column_coercion]
    by (simp add: json_request_def rows f ascii_upper_examples sample_members_def)
  have 4: "?L ?av fedora_db = Abort 404"
    using list_all_product_empty_is_404
      [of ?av _ "[]" fedora_db _ ascii_upper sample_members "''false''" column_coercion]
    by (simp add: json_request_def rows f find_by_availability_def column_coercion_def)
  have 5: "?L ?all empty_db = Abort 404"
    using list_all_product_empty_is_404
      [of ?all _ "[]" empty_db _ ascii_upper sample_members _ column_coercion]
    by (simp add: json_request_def rows)
  have 6: "?L ?all fedora_db = Response 200 (JArray [serialize fedora]) []"
    using list_all_product_empty_is_404
      [of ?all _ "[fedora]" fedora_db _ ascii_upper sample_members _ column_coercion]
    by (simp add: json_request_def rows)
  from 1 2 3 4 5 6 show ?thesis by blast
qed

text \<open>
  C1 as stated fails: a category value that names no member yields no product set at all.
  With the Fedora stored, \<^verbatim>\<open>GET /products?category=bogus\<close> ends in the attribute error,
  a server error, neither 404 nor 200.
\<close>

theorem list_all_product_unknown_category_counterexample:
  "list_all_product sample_members ascii_upper column_coercion
     (json_request [''category'' \<mapsto> ''bogus''] Map.empty) fedora_db = Raise AttributeError \<and>
   status_code (list_all_product sample_members ascii_upper column_coercion
     (json_request [''category'' \<mapsto> ''bogus''] Map.empty) fedora_db) = 500"
  by (simp add: list_all_product_def selected_products_def json_request_def
      getattr_Category_def sample_members_def ascii_upper_examples
      HTTP_500_INTERNAL_SERVER_ERROR_def)

text \<open>
  C7, as amended. For every \<^verbatim>\<open>GET /products\<close> request whose name filter is absent or
  empty and whose category value is not empty: the value is uppercased before the lookup
  among the member names, so a value whose uppercase form names a member selects the
  products of that member, and two values with the same uppercase form are answered alike;
  when the uppercased value names no member, the handler lets the attribute error escape:
  its outcome is the raised exception, not a response or an abort with a status.
\<close>

theorem category_filter_lookup:
  assumes "args req ''name'' = None \<or> args req ''name'' = Some []"
      and "args req ''category'' = Some c" and "c \<noteq> []"
  shows "(upper c \<in> set members \<longrightarrow>
            selected_products members upper non_boolean req d =
              Inr (filter (\<lambda>r. category r = Some (Member (upper c))) (rows d))) \<and>
         (upper c \<notin> set members \<longrightarrow>
            list_all_product members upper non_boolean req d = Raise AttributeError) \<and>
         (\<forall>c'. c' \<noteq> [] \<and> upper c' = upper c \<longrightarrow>
            list_all_product members upper non_boolean
              (req\<lparr>args := (args req)(''category'' \<mapsto> c')\<rparr>) d =
            list_all_product members upper non_boolean req d)"
proof -
  have sel: "selected_products members upper non_boolean req d =
       (case getattr_Category members (upper c) of
          Inl e \<Rightarrow> Inl e
        | Inr category_value \<Rightarrow> Inr (find_by_category category_value d))"
    using assms by (auto simp: selected_products_def)
  have sel': "selected_products members upper non_boolean
                (req\<lparr>args := (args req)(''category'' \<mapsto> c')\<rparr>) d =
              selected_products members upper non_boolean req d"
    if "c' \<noteq> [] \<and> upper c' = upper c" for c'
    using assms that by (auto simp: selected_products_def)
  show ?thesis
    using sel sel'
    by (simp add: list_all_product_def getattr_Category_def find_by_category_def)
qed

theorem category_filter_lookup_witness:
  "selected_products sample_members ascii_upper column_coercion
     (json_request [''category'' \<mapsto> ''cloths''] Map.empty) fedora_db = Inr [fedora] \<and>
   list_all_product sample_members ascii_upper column_coercion
     (json_request [''category'' \<mapsto> ''food''] Map.empty) fedora_db = Raise AttributeError \<and>
   list_all_product sample_members ascii_upper column_coercion
     (json_request [''category'' \<mapsto> ''Cloths''] Map.empty) fedora_db =
   list_all_product sample_members ascii_upper column_coercion
     (json_request [''category'' \<mapsto> ''cloths''] Map.empty) fedora_db"
proof -
  let ?r = "json_request [''category'' \<mapsto> ''cloths''] Map.empty"
  let ?q = "json_request [''category'' \<mapsto> ''food''] Map.empty"
  note u = ascii_upper_examples
  have r: "args ?r ''name'' = None \<or> args ?r ''name'' = Some []"
          "args ?r ''category'' = Some ''cloths''"
          "args ?q ''name'' = None \<or> args ?q ''name'' = Some []"
          "args ?q ''category'' = Some ''food''"
    by (simp_all add: json_request_def)
  have upd: "?r\<lparr>args := (args ?r)(''category'' \<mapsto> ''Cloths'')\<rparr> =
             json_request [''category'' \<mapsto> ''Cloths''] Map.empty"
    by (simp add: json_request_def)
  have c: "''cloths'' \<noteq> []" "''food'' \<noteq> []" by simp_all
  note hit = category_filter_lookup
    [OF r(1,2) c(1), of ascii_upper sample_members column_coercion fedora_db]
  note miss = category_filter_lookup
    [OF r(3,4) c(2), of ascii_upper sample_members column_coercion fedora_db]
  from hit have "selected_products sample_members ascii_upper column_coercion ?r fedora_db =
      Inr [fedora]"
    by (simp add: u sample_members_def fedora_db_def fedora_def)
  moreover from miss
  have "list_all_product sample_members ascii_upper column_coercion ?q fedora_db =
      Raise AttributeError"
    by (simp add: u sample_members_def)
  moreover from hit have "''Cloths'' \<noteq> [] \<and> ascii_upper ''Cloths'' = ascii_upper ''cloths'' \<longrightarrow>
      list_all_product sample_members ascii_upper column_coercion
        (?r\<lparr>args := (args ?r)(''category'' \<mapsto> ''Cloths'')\<rparr>) fedora_db =
      list_all_product sample_members ascii_upper column_coercion ?r fedora_db"
    by blast
  then have "list_all_product sample_members ascii_upper column_coercion
        (json_request [''category'' \<mapsto> ''Cloths''] Map.empty) fedora_db =
      list_all_product sample_members ascii_upper column_coercion ?r fedora_db"
    by (simp add: u upd)
  ultimately show ?thesis by simp
qed

text \<open>
  C7 as stated fails: a request can carry a category value and never have it looked up. With
  a name filter present the category is ignored, so
  \<^verbatim>\<open>GET /products?name=Fedora&category=bogus\<close> is answered with 200 and the Fedora,
  although BOGUS names no member.
\<close>

theorem category_ignored_counterexample:
  "args (json_request [''name'' \<mapsto> ''Fedora'', ''category'' \<mapsto> ''bogus''] Map.empty) ''category''
     = Some ''bogus'' \<and>
   ascii_upper ''bogus'' \<notin> set sample_members \<and>
   list_all_product sample_members ascii_upper column_coercion
     (json_request [''name'' \<mapsto> ''Fedora'', ''category'' \<mapsto> ''bogus''] Map.empty) fedora_db =
     Response 200 (JArray [serialize fedora]) []"
  by (simp add: list_all_product_def selected_products_def json_request_def find_by_name_def
      fedora_db_def fedora_def sample_members_def ascii_upper_examples HTTP_200_OK_def)

subsection \<open>Storage operations, delete and create\<close>

lemma product_find_id: "product_find pid d = Some p \<Longrightarrow> product_id p = Some pid"
  by (auto simp: product_find_def find_Some_iff)

lemma find_after_delete:
  "product_id p = Some pid \<Longrightarrow> product_find pid (product_delete p d) = None"
  by (simp add: product_find_def product_delete_def find_None_iff)

lemma find_fedora: "product_find 1 fedora_db = Some fedora"
  by (simp add: product_find_def fedora_db_def fedora_def)

text \<open>
  C5. \<^verbatim>\<open>update()\<close> on an instance whose id is \<^verbatim>\<open>None\<close> fails with the validation
  error, and the stored table after the failed call is the table before it.
\<close>

theorem update_without_id:
  assumes "product_id p = None"
  shows "product_update p d = (Inl DataValidationError, d)"
  using assms by (simp add: product_update_def)

theorem update_without_id_witness:
  "product_update (fedora\<lparr>product_id := None\<rparr>) fedora_db = (Inl DataValidationError, fedora_db)"
proof -
  have "product_id (fedora\<lparr>product_id := None\<rparr>) = None" by simp
  then show ?thesis by (rule update_without_id)
qed

text \<open>
  C8. \<^verbatim>\<open>DELETE /products/<id>\<close> answers 404 and leaves the table alone when no product
  with the id is stored; when one is, it deletes it and answers 200 with the confirmation
  message, and looking the id up in the new table finds nothing.
\<close>

theorem delete_product_correct:
  "(product_find pid d = None \<longrightarrow> delete_product pid d = (Abort 404, d)) \<and>
   (\<forall>p. product_find pid d = Some p \<longrightarrow>
      delete_product pid d =
        (Response 200
           (JObject [''message'' \<mapsto> PyStr ''The product with name {prod.name} successfully deleted''])
           [],
         product_delete p d) \<and>
      product_find pid (snd (delete_product pid d)) = None)"
  by (auto simp: delete_product_def HTTP_200_OK_def find_after_delete product_find_id)

theorem delete_product_correct_witness:
  "delete_product 0 fedora_db = (Abort 404, fedora_db) \<and>
   status_code (fst (delete_product 1 fedora_db)) = 200 \<and>
   snd (delete_product 1 fedora_db) = \<lparr>rows = [], next_id = 2\<rparr> \<and>
   product_find 1 (snd (delete_product 1 fedora_db)) = None"
proof -
  have none: "product_find 0 fedora_db = None"
    by (simp add: product_find_def fedora_db_def fedora_def)
  from delete_product_correct [of 0 fedora_db] none
  have a: "delete_product 0 fedora_db = (Abort 404, fedora_db)" by simp
  from delete_product_correct [of 1 fedora_db] find_fedora
  have b: "delete_product 1 fedora_db =
        (Response 200
           (JObject [''message'' \<mapsto> PyStr ''The product with name {prod.name} successfully deleted''])
           [],
         product_delete fedora fedora_db) \<and>
      product_find 1 (snd (delete_product 1 fedora_db)) = None" by blast
  have c: "product_delete fedora fedora_db = \<lparr>rows = [], next_id = 2\<rparr>"
    by (simp add: product_delete_def fedora_db_def)
  from b have b1: "delete_product 1 fedora_db =
        (Response 200
           (JObject [''message'' \<mapsto> PyStr ''The product with name {prod.name} successfully deleted''])
           [],
         product_delete fedora fedora_db)"
    and b2: "product_find 1 (snd (delete_product 1 fedora_db)) = None" by blast+
  show ?thesis
    unfolding a using b2 by (simp add: b1 c)
qed

lemma deserialize_error: "deserialize members data p = Inl e \<Longrightarrow> e = DataValidationError"
  by (auto simp: deserialize_def name_field_def description_field_def price_field_def
      available_field_def category_field_def
      split: sum.splits option.splits pyval.splits if_splits)

lemma deserialize_name_missing: "data ''name'' = None \<Longrightarrow> deserialize members data p = Inl DataValidationError"
  by (simp add: deserialize_def name_field_def)

lemma deserialize_keeps_id: "deserialize members data p = Inr p' \<Longrightarrow> product_id p' = product_id p"
  by (auto simp: deserialize_def split: sum.splits)

text \<open>
  C4. A \<^verbatim>\<open>POST /products\<close> with content type application/json whose body fails
  deserialization (a body without a name, for one) lets the validation error escape before
  \<^verbatim>\<open>create()\<close> is reached: the client sees 400, and the stored table is unchanged.
\<close>

theorem create_products_invalid_body:
  assumes "headers req ''Content-Type'' = Some ''application/json''"
      and "deserialize members (json_body req) Product = Inl e"
  shows "fst (create_products members req d) = Raise DataValidationError \<and>
         status_code (fst (create_products members req d)) = 400 \<and>
         snd (create_products members req d) = d"
  using assms deserialize_error [OF assms(2)]
  by (simp add: create_products_def check_content_type_def HTTP_400_BAD_REQUEST_def)

theorem create_products_invalid_body_witness:
  "status_code (fst (create_products sample_members
       (json_request Map.empty (fedora_json(''name'' := None))) fedora_db)) = 400 \<and>
   snd (create_products sample_members
       (json_request Map.empty (fedora_json(''name'' := None))) fedora_db) = fedora_db"
proof -
  let ?req = "json_request Map.empty (fedora_json(''name'' := None))"
  have ct: "headers ?req ''Content-Type'' = Some ''application/json''"
    by (simp add: json_request_def)
  have "json_body ?req ''name'' = None" by (simp add: json_request_def)
  then have bad: "deserialize sample_members (json_body ?req) Product = Inl DataValidationError"
    by (rule deserialize_name_missing)
  from create_products_invalid_body [OF ct bad, of fedora_db] show ?thesis by blast
qed

subsection \<open>Update\<close>

lemma find_after_update:
  assumes "product_find pid d = Some p0" and "product_id p = Some pid"
  shows "product_find pid (snd (product_update p d)) = Some p"
proof -
  have "List.find (\<lambda>r. product_id r = Some pid)
          (map (\<lambda>r. if product_id r = Some pid then p else r) rs) = Some p"
    if "List.find (\<lambda>r. product_id r = Some pid) rs = Some p0" for rs
    using that assms(2) by (induction rs) (auto split: if_splits)
  with assms show ?thesis
    by (simp add: product_find_def product_update_def)
qed

text \<open>
  C3, as amended. For a \<^verbatim>\<open>PUT /products/<id>\<close> with content type application/json:
  when no product with the path id is stored, the answer is 404 and nothing is written; when
  one is stored and the body deserializes onto it, the id of the instance is set to the path
  id, \<^verbatim>\<open>update()\<close> succeeds and persists it, and the answer is 200 with the serialized
  product, whose id is the path id whatever the body says; when one is stored and the body
  fails deserialization, the validation error escapes and nothing is written.
\<close>

theorem update_product_correct:
  assumes "headers req ''Content-Type'' = Some ''application/json''"
  shows "(product_find pid d = None \<longrightarrow> update_product members req pid d = (Abort 404, d)) \<and>
         (\<forall>p0 p1. product_find pid d = Some p0 \<and>
                  deserialize members (json_body req) p0 = Inr p1 \<longrightarrow>
            fst (update_product members req pid d) =
              Response 200 (JObject (serialize (p1\<lparr>product_id := Some pid\<rparr>))) [] \<and>
            serialize (p1\<lparr>product_id := Some pid\<rparr>) ''id'' = Some (PyInt pid) \<and>
            product_update (p1\<lparr>product_id := Some pid\<rparr>) d =
              (Inr (), snd (update_product members req pid d)) \<and>
            product_find pid (snd (update_product members req pid d)) =
              Some (p1\<lparr>product_id := Some pid\<rparr>)) \<and>
         (\<forall>p0 e. product_find pid d = Some p0 \<and>
                 deserialize members (json_body req) p0 = Inl e \<longrightarrow>
            update_product members req pid d = (Raise DataValidationError, d))"
proof (intro conjI allI impI)
  assume "product_find pid d = None"
  with assms show "update_product members req pid d = (Abort 404, d)"
    by (simp add: update_product_def check_content_type_def)
next
  fix p0 p1
  assume h: "product_find pid d = Some p0 \<and> deserialize members (json_body req) p0 = Inr p1"
  let ?p2 = "p1\<lparr>product_id := Some pid\<rparr>"
  have upd: "product_update ?p2 d = (Inr (), snd (product_update ?p2 d))"
    by (simp add: product_update_def)
  have run: "update_product members req pid d =
      (Response 200 (JObject (serialize ?p2)) [], snd (product_update ?p2 d))"
    using assms h
    by (simp add: update_product_def check_content_type_def Let_def product_update_def
        HTTP_200_OK_def)
  show "fst (update_product members req pid d) = Response 200 (JObject (serialize ?p2)) []"
    by (simp add: run)
  show "serialize ?p2 ''id'' = Some (PyInt pid)"
    by (simp add: serialize_def)
  show "product_update ?p2 d = (Inr (), snd (update_product members req pid d))"
    using upd by (simp add: run)
  from h have "product_find pid (snd (product_update ?p2 d)) = Some ?p2"
    by (intro find_after_update [of pid d p0]) simp_all
  then show "product_find pid (snd (update_product members req pid d)) = Some ?p2"
    by (simp add: run)
next
  fix p0 e
  assume h: "product_find pid d = Some p0 \<and> deserialize members (json_body req) p0 = Inl e"
  then have "e = DataValidationError"
    by (auto simp: deserialize_def name_field_def description_field_def price_field_def
        available_field_def category_field_def
        split: sum.splits option.splits pyval.splits if_splits)
  with assms h show "update_product members req pid d = (Raise DataValidationError, d)"
    by (simp add: update_product_def check_content_type_def)
qed

lemma deserialize_rename:
  "deserialize sample_members (fedora_json(''name'' \<mapsto> PyStr ''Mor_test'', ''id'' \<mapsto> PyInt 99))
     fedora = Inr (fedora\<lparr>name := Some ''Mor_test''\<rparr>)"
  by (simp add: deserialize_def name_field_def description_field_def price_field_def
      available_field_def category_field_def getattr_Category_def fedora_json_def
      fedora_def sample_members_def decimal_of_str_def digit_val_def fedora_price_def)

theorem update_product_correct_witness:
  "update_product sample_members (json_request Map.empty fedora_json) 0 fedora_db =
     (Abort 404, fedora_db) \<and>
   fst (update_product sample_members
          (json_request Map.empty (fedora_json(''name'' \<mapsto> PyStr ''Mor_test'', ''id'' \<mapsto> PyInt 99)))
          1 fedora_db) =
     Response 200 (JObject (serialize (fedora\<lparr>name := Some ''Mor_test''\<rparr>))) [] \<and>
   serialize (fedora\<lparr>name := Some ''Mor_test''\<rparr>) ''id'' = Some (PyInt 1) \<and>
   product_find 1 (snd (update_product sample_members
          (json_request Map.empty (fedora_json(''name'' \<mapsto> PyStr ''Mor_test'', ''id'' \<mapsto> PyInt 99)))
          1 fedora_db)) = Some (fedora\<lparr>name := Some ''Mor_test''\<rparr>)"
proof -
  let ?body = "fedora_json(''name'' \<mapsto> PyStr ''Mor_test'', ''id'' \<mapsto> PyInt 99)"
  let ?req = "json_request Map.empty ?body"
  let ?new = "fedora\<lparr>name := Some ''Mor_test''\<rparr>"
  have ct: "headers (json_request a b) ''Content-Type'' = Some ''application/json''" for a b
    by (simp add: json_request_def)
  have none: "product_find 0 fedora_db = None"
    by (simp add: product_find_def fedora_db_def fedora_def)
  have des: "deserialize sample_members (json_body ?req) fedora = Inr ?new"
    by (simp add: json_request_def deserialize_rename)
  have same: "?new\<lparr>product_id := Some 1\<rparr> = ?new"
    by (simp add: fedora_def)
  from update_product_correct [OF ct, of 0 fedora_db sample_members] none
  have a: "update_product sample_members (json_request Map.empty fedora_json) 0 fedora_db =
     (Abort 404, fedora_db)"
    by blast
  from update_product_correct [OF ct, of 1 fedora_db sample_members] find_fedora des
  have b: "fst (update_product sample_members ?req 1 fedora_db) =
              Response 200 (JObject (serialize (?new\<lparr>product_id := Some 1\<rparr>))) [] \<and>
            serialize (?new\<lparr>product_id := Some 1\<rparr>) ''id'' = Some (PyInt 1) \<and>
            product_update (?new\<lparr>product_id := Some 1\<rparr>) fedora_db =
              (Inr (), snd (update_product sample_members ?req 1 fedora_db)) \<and>
            product_find 1 (snd (update_product sample_members ?req 1 fedora_db)) =
              Some (?new\<lparr>product_id := Some 1\<rparr>)"
    by blast
  from a b show ?thesis
    unfolding same by blast
qed

text \<open>
  C3 as stated fails: with the product of id 1 stored and an empty JSON body, the request is
  answered with the validation error (400), not with 200, and the table is unchanged.
\<close>

theorem update_product_invalid_body_counterexample:
  "headers (json_request Map.empty Map.empty) ''Content-Type'' = Some ''application/json'' \<and>
   product_find 1 fedora_db = Some fedora \<and>
   update_product sample_members (json_request Map.empty Map.empty) 1 fedora_db =
     (Raise DataValidationError, fedora_db) \<and>
   status_code (fst (update_product sample_members (json_request Map.empty Map.empty) 1 fedora_db))
     = 400"
  by (simp add: update_product_def check_content_type_def json_request_def product_find_def
      fedora_db_def fedora_def deserialize_def name_field_def HTTP_400_BAD_REQUEST_def)

subsection \<open>Serialization round trip\<close>

lemma deserialize_serialize:
  assumes "valid_product members p"
  shows "deserialize members (serialize p) q =
           Inr (q\<lparr>name := name p, description := description p, price := price p,
                  available := available p, category := category p\<rparr>)"
proof -
  from assms obtain n x b c where
    f: "name p = Some n" "n \<noteq> []" "price p = Some x" "available p = Some b"
       "category p = Some c" "category_name c \<in> set members"
    by (auto simp: valid_product_def split: option.splits)
  have c: "Member (category_name c) = c" by (cases c) simp
  have nm: "name_field (serialize p) = Inr n"
    using f by (simp add: name_field_def serialize_def)
  have ds: "description_field (serialize p) (description q) = Inr (description p)"
    by (cases "description p") (simp_all add: description_field_def serialize_def)
  have pr: "price_field (serialize p) = Inr x"
    using f by (simp add: price_field_def serialize_def decimal_roundtrip)
  have av: "available_field (serialize p) = Inr b"
    using f by (simp add: available_field_def serialize_def)
  have ca: "category_field members (serialize p) (category q) = Inr (Some c)"
    using f c by (simp add: category_field_def serialize_def getattr_Category_def)
  show ?thesis
    by (simp add: deserialize_def nm ds pr av ca f)
qed

text \<open>
  C6. For a valid product, deserializing its serialization (onto any instance) succeeds and
  reproduces the name, the description, the availability and the category, and a price of
  the same numeric value; the serialization has exactly the keys id, name, description,
  price, available and category, with the category rendered as the name of its member and
  available as a boolean.
\<close>

theorem serialize_roundtrip:
  assumes "valid_product members p"
  shows "(\<exists>p'. deserialize members (serialize p) q = Inr p' \<and>
               name p' = name p \<and> description p' = description p \<and>
               map_option dec_value (price p') = map_option dec_value (price p) \<and>
               available p' = available p \<and> category p' = category p) \<and>
         dom (serialize p) =
           {''id'', ''name'', ''description'', ''price'', ''available'', ''category''} \<and>
         (\<exists>c. category p = Some c \<and> serialize p ''category'' = Some (PyStr (category_name c))) \<and>
         (\<exists>b. available p = Some b \<and> serialize p ''available'' = Some (PyBool b))"
proof (intro conjI)
  show "\<exists>p'. deserialize members (serialize p) q = Inr p' \<and>
               name p' = name p \<and> description p' = description p \<and>
               map_option dec_value (price p') = map_option dec_value (price p) \<and>
               available p' = available p \<and> category p' = category p"
    using deserialize_serialize [OF assms, of q] by simp
  show "dom (serialize p) =
           {''id'', ''name'', ''description'', ''price'', ''available'', ''category''}"
    by (auto simp: serialize_def)
  show "\<exists>c. category p = Some c \<and> serialize p ''category'' = Some (PyStr (category_name c))"
    using assms by (auto simp: valid_product_def serialize_def split: option.splits)
  show "\<exists>b. available p = Some b \<and> serialize p ''available'' = Some (PyBool b)"
    using assms by (auto simp: valid_product_def serialize_def split: option.splits)
qed

lemma fedora_valid: "valid_product sample_members fedora"
  by (simp add: valid_product_def fedora_def sample_members_def)

theorem serialize_roundtrip_witness:
  "serialize fedora ''price'' = Some (PyStr ''12.50'') \<and>
   serialize fedora ''category'' = Some (PyStr ''CLOTHS'') \<and>
   serialize fedora ''available'' = Some (PyBool True) \<and>
   dom (serialize fedora) =
     {''id'', ''name'', ''description'', ''price'', ''available'', ''category''} \<and>
   deserialize sample_members (serialize fedora) Product = Inr (fedora\<lparr>product_id := None\<rparr>)"
proof -
  have s: "str_of_decimal fedora_price = ''12.50''"
    by code_simp
  have a: "serialize fedora ''price'' = Some (PyStr ''12.50'')"
    by (simp add: serialize_def fedora_def s)
  note rt = serialize_roundtrip [OF fedora_valid, of Product]
  from rt have b: "dom (serialize fedora) =
     {''id'', ''name'', ''description'', ''price'', ''available'', ''category''}"
    by (rule conjunct2 [THEN conjunct1])
  have cat: "category fedora = Some (Member ''CLOTHS'')" and av: "available fedora = Some True"
    by (simp_all add: fedora_def)
  from rt obtain c where "category fedora = Some c"
      "serialize fedora ''category'' = Some (PyStr (category_name c))"
    by blast
  with cat have c: "serialize fedora ''category'' = Some (PyStr ''CLOTHS'')"
    by simp
  from rt obtain t where "available fedora = Some t"
      "serialize fedora ''available'' = Some (PyBool t)"
    by blast
  with av have d: "serialize fedora ''available'' = Some (PyBool True)"
    by simp
  have f: "deserialize sample_members (serialize fedora) Product = Inr (fedora\<lparr>product_id := None\<rparr>)"
    using deserialize_serialize [OF fedora_valid, of Product]
    by (simp add: Product_def fedora_def)
  from a b c d f show ?thesis by simp
qed

end
